theory Spec2Isabelle
  imports Main
begin

section \<open>Documents and collections\<close>

text \<open>
  The repository class \<open>UserRepository\<close> (src/repositories/user.py) works on a MongoDB
  database with the collections \<open>users\<close> and \<open>posts\<close> and the GridFS bucket
  \<open>imgs_profile\<close>. A collection is the list of its documents in storage order; the
  database is passed through every method explicitly and returned updated.
\<close>

type_synonym ident = string
type_synonym datetime = nat
type_synonym bytes = "nat list"

text \<open>
  Modelled from the spec: the model classes \<open>User\<close>, \<open>UserIn\<close> and \<open>Post\<close>
  (models/user.py, models/post.py) are not among the sources. The fields are the ones the
  repository reads and writes, with the attributes of section 3 of the specification. The
  document key \<open>_id\<close> is the field \<open>u_id\<close> (\<open>p_id\<close> for a post). The profile
  fields may hold Python's \<open>None\<close>, hence \<open>option\<close>; \<open>age\<close> is stored as the text
  \<open>str\<close> makes of it.
\<close>

record user =
  u_id :: ident
  username :: string
  hashed_password :: string
  name :: "string option"
  surname :: "string option"
  bio :: "string option"
  age :: "string option"
  gender :: "string option"
  email :: "string option"
  profile_image :: string
  created_at :: datetime
  updated_at :: datetime
  subscriptions :: "ident list"
  subscribers :: "ident list"
  liked_posts :: "ident list"

record UserIn =
  in_name :: "string option"
  in_surname :: "string option"
  in_bio :: "string option"
  in_age :: "int option"
  in_gender :: "string option"
  in_email :: "string option"

record post =
  p_id :: ident
  p_user_id :: ident
  p_image :: string
  likes :: int
  p_created_at :: datetime

record database =
  users :: "user list"
  posts :: "post list"
  imgs_profile :: "(bytes \<times> bytes) list"

text \<open>
  \<open>Settings\<close> (core/config.py) is not among the sources either; the one setting the
  repository reads is a parameter.
\<close>

record Settings =
  DEFAULT_PROFILE_IMAGE :: string

text \<open>What a method raises, or hands back as a value.\<close>

datatype exn =
    HTTPException nat string
  | TypeError
  | InvalidId
  | DuplicateKeyError

definition HTTP_404_NOT_FOUND :: nat where
  "HTTP_404_NOT_FOUND = 404"

definition HTTP_409_CONFLICT :: nat where
  "HTTP_409_CONFLICT = 409"

fun status_code :: "exn \<Rightarrow> nat option" where
  "status_code (HTTPException c d) = Some c"
| "status_code e = None"

section \<open>The driver's operations\<close>

text \<open>
  \<open>find_one\<close> gives the first document that matches the filter, or \<open>None\<close>.
  \<open>find_one_and_update\<close> and \<open>find_one_and_delete\<close> act on the first match only and
  leave the collection as it is when nothing matches (no upsert).
\<close>

fun find_one :: "('a \<Rightarrow> bool) \<Rightarrow> 'a list \<Rightarrow> 'a option" where
  "find_one q [] = None"
| "find_one q (d # ds) = (if q d then Some d else find_one q ds)"

fun find_one_and_update :: "('a \<Rightarrow> bool) \<Rightarrow> ('a \<Rightarrow> 'a) \<Rightarrow> 'a list \<Rightarrow> 'a list" where
  "find_one_and_update q f [] = []"
| "find_one_and_update q f (d # ds) =
     (if q d then f d # ds else d # find_one_and_update q f ds)"

fun find_one_and_delete :: "('a \<Rightarrow> bool) \<Rightarrow> 'a list \<Rightarrow> 'a list" where
  "find_one_and_delete q [] = []"
| "find_one_and_delete q (d # ds) =
     (if q d then ds else d # find_one_and_delete q ds)"

text \<open>
  \<open>find(limit=n)\<close>: a limit of 0 is no limit, and a negative limit counts as its
  absolute value.
\<close>

definition find_limit :: "int \<Rightarrow> 'a list \<Rightarrow> 'a list" where
  "find_limit limit ds = (if limit = 0 then ds else take (nat \<bar>limit\<bar>) ds)"

text \<open>\<open>insert_one\<close> appends; the unique index on \<open>_id\<close> refuses a key already there.\<close>

definition insert_one :: "user \<Rightarrow> user list \<Rightarrow> exn + user list" where
  "insert_one d ds =
     (if u_id d \<in> set (map u_id ds) then Inl DuplicateKeyError else Inr (ds @ [d]))"

text \<open>The update operators \<open>$push\<close> and \<open>$pull\<close> on an array field.\<close>

definition push :: "'a \<Rightarrow> 'a list \<Rightarrow> 'a list" where
  "push v vs = vs @ [v]"

definition pull :: "'a \<Rightarrow> 'a list \<Rightarrow> 'a list" where
  "pull v vs = filter (\<lambda>w. w \<noteq> v) vs"

definition by_id :: "ident \<Rightarrow> user \<Rightarrow> bool" where
  "by_id i u = (u_id u = i)"

definition by_username :: "string \<Rightarrow> user \<Rightarrow> bool" where
  "by_username n u = (username u = n)"

definition post_by_id :: "ident \<Rightarrow> post \<Rightarrow> bool" where
  "post_by_id i p = (p_id p = i)"

section \<open>UserRepository\<close>

text \<open>
  The methods of src/repositories/user.py, in the order of the source. A method that can
  raise returns \<open>exn + 'a\<close>, \<open>Inl\<close> for what it raises; every raise of these methods
  comes before their first write, so a raised exception leaves the store as it was.

  \<open>get_all\<close> (lines 31 to 42) hands only \<open>limit\<close> to the driver:
  \<^verbatim>\<open>query = self.database["users"].find(limit=limit)\<close>
\<close>

definition get_all :: "database \<Rightarrow> int \<Rightarrow> int \<Rightarrow> user list" where
  "get_all db limit skip = find_limit limit (users db)"

text \<open>
  \<open>get_by_id\<close> (lines 44 to 58) raises the 404; \<open>get_by_username\<close> (lines 325 to
  334) returns what \<open>find_one\<close> gives; \<open>check_username\<close> (lines 312 to 323) tests it
  against \<open>None\<close>; \<open>delete\<close> (lines 205 to 211) is one \<open>find_one_and_delete\<close>.
\<close>

definition get_by_id :: "database \<Rightarrow> ident \<Rightarrow> exn + user" where
  "get_by_id db i =
     (case find_one (by_id i) (users db) of
        Some u \<Rightarrow> Inr u
      | None \<Rightarrow>
          Inl (HTTPException HTTP_404_NOT_FOUND (''User with ID '' @ i @ '' not found'')))"

definition get_by_username :: "database \<Rightarrow> string \<Rightarrow> user option" where
  "get_by_username db n = find_one (by_username n) (users db)"

definition check_username :: "database \<Rightarrow> string \<Rightarrow> bool" where
  "check_username db n =
     (if find_one (by_username n) (users db) = None then False else True)"

definition delete :: "database \<Rightarrow> ident \<Rightarrow> database" where
  "delete db i = db\<lparr>users := find_one_and_delete (by_id i) (users db)\<rparr>"

text \<open>
  \<open>create\<close> (lines 60 to 82): \<open>blank\<close> is the document the model class \<open>User\<close> builds before the
  named fields are set (its generated \<open>_id\<close> and its defaults); \<open>now1\<close> and \<open>now2\<close>
  are the two readings of \<open>datetime.utcnow()\<close>, in the order the source takes them.
\<close>

record user_dict =
  d_username :: string
  d_hashed_password :: string

definition create ::
  "Settings \<Rightarrow> user \<Rightarrow> datetime \<Rightarrow> datetime \<Rightarrow> database \<Rightarrow> user_dict
     \<Rightarrow> exn + (user option \<times> database)" where
  "create settings blank now1 now2 db d =
     (let u0 = blank\<lparr>username := d_username d, hashed_password := d_hashed_password d,
                     created_at := now1, updated_at := now2\<rparr>;
          u1 = u0\<lparr>profile_image := DEFAULT_PROFILE_IMAGE settings\<rparr>
      in case insert_one u1 (users db) of
           Inl e \<Rightarrow> Inl e
         | Inr us \<Rightarrow>
             (let db' = db\<lparr>users := us\<rparr>
              in Inr (find_one (by_id (u_id u1)) (users db'), db')))"

text \<open>
  \<open>update\<close> (lines 84 to 105) sets six fields in one \<open>$set\<close>, the age through
  \<open>str\<close>, and reads the user back. Python's \<open>str\<close> on an \<open>int\<close> and on \<open>None\<close>:
\<close>

fun str_nat :: "nat \<Rightarrow> string" where
  "str_nat n =
     (if n < 10 then [''0123456789'' ! n]
      else str_nat (n div 10) @ [''0123456789'' ! (n mod 10)])"

definition str_int :: "int \<Rightarrow> string" where
  "str_int i = (if i < 0 then CHR ''-'' # str_nat (nat (- i)) else str_nat (nat i))"

definition py_str :: "int option \<Rightarrow> string" where
  "py_str v = (case v of None \<Rightarrow> ''None'' | Some i \<Rightarrow> str_int i)"

definition set_profile :: "UserIn \<Rightarrow> user \<Rightarrow> user" where
  "set_profile i u =
     u\<lparr>name := in_name i, surname := in_surname i, bio := in_bio i,
       age := Some (py_str (in_age i)), gender := in_gender i, email := in_email i\<rparr>"

definition update :: "database \<Rightarrow> ident \<Rightarrow> UserIn \<Rightarrow> user option \<times> database" where
  "update db user_id i =
     (let db' = db\<lparr>users := find_one_and_update (by_id user_id) (set_profile i) (users db)\<rparr>
      in (find_one (by_id user_id) (users db'), db'))"

text \<open>
  \<open>bson.ObjectId\<close> on a \<open>str\<close>: 24 characters that \<open>bytes.fromhex\<close> accepts, or
  \<open>InvalidId\<close> is raised. \<open>bytes.fromhex\<close> reads pairs of hexadecimal digits and
  skips ASCII whitespace between pairs.
\<close>

definition isspace :: "char \<Rightarrow> bool" where
  "isspace c = ((of_char c :: nat) \<in> {9, 10, 11, 12, 13, 32})"

definition hexval :: "char \<Rightarrow> nat option" where
  "hexval c =
     (let n = (of_char c :: nat)
      in if 48 \<le> n \<and> n \<le> 57 then Some (n - 48)
         else if 97 \<le> n \<and> n \<le> 102 then Some (n - 87)
         else if 65 \<le> n \<and> n \<le> 70 then Some (n - 55)
         else None)"

fun fromhex :: "string \<Rightarrow> bytes option" where
  "fromhex [] = Some []"
| "fromhex [c] = (if isspace c then Some [] else None)"
| "fromhex (c # d # cs) =
     (if isspace c then fromhex (d # cs)
      else case (hexval c, hexval d) of
             (Some h, Some l) \<Rightarrow> map_option ((#) (16 * h + l)) (fromhex cs)
           | _ \<Rightarrow> None)"

definition ObjectId :: "string \<Rightarrow> exn + bytes" where
  "ObjectId s =
     (if length s = 24
      then (case fromhex s of Some b \<Rightarrow> Inr b | None \<Rightarrow> Inl InvalidId)
      else Inl InvalidId)"

text \<open>
  \<open>get_file_id\<close> (lines 132 to 143) stores the image under the id GridFS generates for
  it, \<open>new_id\<close>, and returns \<open>str\<close> of that id: its bytes as lower-case hexadecimal
  digits, 24 of them for the 12 bytes of an id. These are the references the repository
  hands out for a profile image.
\<close>

definition hexlify :: "bytes \<Rightarrow> string" where
  "hexlify bs =
     concat (map (\<lambda>b. [''0123456789abcdef'' ! (b div 16), ''0123456789abcdef'' ! (b mod 16)]) bs)"

definition get_file_id :: "database \<Rightarrow> bytes \<Rightarrow> bytes \<Rightarrow> string \<times> database" where
  "get_file_id db new_id img =
     (hexlify new_id, db\<lparr>imgs_profile := imgs_profile db @ [(new_id, img)]\<rparr>)"

definition is_reference :: "string \<Rightarrow> bool" where
  "is_reference s = (length s = 24 \<and> list_all (\<lambda>c. hexval c \<noteq> None) s)"

text \<open>
  \<open>GridFS.delete\<close> removes the file with that id, and is silent when there is none.
  \<open>update_profile_image\<close> (lines 165 to 187) reads the user, deletes the old file
  unless the image is the default one, then sets the field and reads the user back.
  Subscripting \<open>None\<close>, when the user is not found, is a \<open>TypeError\<close>.
\<close>

definition gridfs_delete :: "bytes \<Rightarrow> (bytes \<times> bytes) list \<Rightarrow> (bytes \<times> bytes) list" where
  "gridfs_delete i fs = filter (\<lambda>f. fst f \<noteq> i) fs"

definition set_profile_image :: "database \<Rightarrow> ident \<Rightarrow> string \<Rightarrow> database" where
  "set_profile_image db user_id file_id =
     db\<lparr>users := find_one_and_update (by_id user_id) (\<lambda>u. u\<lparr>profile_image := file_id\<rparr>)
                    (users db)\<rparr>"

definition update_profile_image ::
  "Settings \<Rightarrow> database \<Rightarrow> ident \<Rightarrow> string \<Rightarrow> exn + (user option \<times> database)" where
  "update_profile_image settings db user_id file_id =
     (case find_one (by_id user_id) (users db) of
        None \<Rightarrow> Inl TypeError
      | Some u \<Rightarrow>
          (case (if profile_image u \<noteq> DEFAULT_PROFILE_IMAGE settings
                 then (case ObjectId (profile_image u) of
                         Inl e \<Rightarrow> Inl e
                       | Inr i \<Rightarrow> Inr (db\<lparr>imgs_profile := gridfs_delete i (imgs_profile db)\<rparr>))
                 else Inr db) of
             Inl e \<Rightarrow> Inl e
           | Inr db1 \<Rightarrow>
               (let db2 = set_profile_image db1 user_id file_id
                in Inr (find_one (by_id user_id) (users db2), db2))))"

text \<open>
  \<open>subscribe\<close> (lines 243 to 255) and \<open>unsubsribe\<close> (lines 257 to 269, the name as
  the source spells it): two updates each, the second on the store the first leaves.
\<close>

definition subscribe :: "database \<Rightarrow> ident \<Rightarrow> ident \<Rightarrow> database" where
  "subscribe db user_id sub_user_id =
     (let db1 = db\<lparr>users := find_one_and_update (by_id user_id)
                    (\<lambda>u. u\<lparr>subscriptions := push sub_user_id (subscriptions u)\<rparr>) (users db)\<rparr>
      in db1\<lparr>users := find_one_and_update (by_id sub_user_id)
                    (\<lambda>u. u\<lparr>subscribers := push user_id (subscribers u)\<rparr>) (users db1)\<rparr>)"

definition unsubsribe :: "database \<Rightarrow> ident \<Rightarrow> ident \<Rightarrow> database" where
  "unsubsribe db user_id sub_user_id =
     (let db1 = db\<lparr>users := find_one_and_update (by_id user_id)
                    (\<lambda>u. u\<lparr>subscriptions := pull sub_user_id (subscriptions u)\<rparr>) (users db)\<rparr>
      in db1\<lparr>users := find_one_and_update (by_id sub_user_id)
                    (\<lambda>u. u\<lparr>subscribers := pull user_id (subscribers u)\<rparr>) (users db1)\<rparr>)"

text \<open>
  \<open>__get_sub_helper__\<close> (lines 271 to 288): the key \<open>what_need\<close> is the selector of the field it names.
  Subscripting \<open>None\<close>, when the user is not found, is a \<open>TypeError\<close>. The loop appends
  whatever \<open>find_one\<close> gives for each id.
\<close>

fun sub_loop :: "database \<Rightarrow> ident list \<Rightarrow> user option list \<Rightarrow> user option list" where
  "sub_loop db [] res = res"
| "sub_loop db (i # ids) res = sub_loop db ids (res @ [find_one (by_id i) (users db)])"

definition get_sub_helper ::
  "database \<Rightarrow> ident \<Rightarrow> (user \<Rightarrow> ident list) \<Rightarrow> exn + user option list" where
  "get_sub_helper db user_id what_need =
     (case find_one (by_id user_id) (users db) of
        None \<Rightarrow> Inl TypeError
      | Some u \<Rightarrow> Inr (sub_loop db (what_need u) []))"

definition get_subscribers :: "database \<Rightarrow> ident \<Rightarrow> exn + user option list" where
  "get_subscribers db user_id = get_sub_helper db user_id subscribers"

definition get_subscriptions :: "database \<Rightarrow> ident \<Rightarrow> exn + user option list" where
  "get_subscriptions db user_id = get_sub_helper db user_id subscriptions"

text \<open>
  \<open>signup\<close> (lines 338 to 357) returns its \<open>HTTPException\<close>s instead of raising them, and its bare
  \<open>except\<close> turns whatever the hashing or the insertion raises into one.
  \<open>Auth\<close> (core/auth.py) is not among the sources: its \<open>encode_password\<close> is a
  parameter that may raise.
\<close>

record Auth =
  encode_password :: "string \<Rightarrow> exn + string"

datatype signup_result = Created "user option" | Returned exn

text \<open>The exception a call of \<open>signup\<close> ends with, if it ends with one.\<close>

fun signalled :: "signup_result \<Rightarrow> exn option" where
  "signalled (Returned e) = Some e"
| "signalled (Created u) = None"

definition signup ::
  "Settings \<Rightarrow> Auth \<Rightarrow> user \<Rightarrow> datetime \<Rightarrow> datetime \<Rightarrow> database \<Rightarrow> string \<Rightarrow> string
     \<Rightarrow> signup_result \<times> database" where
  "signup settings auth_handler blank now1 now2 db uname password =
     (if check_username db uname
      then (Returned (HTTPException 401 ''Account already exists''), db)
      else case encode_password auth_handler password of
             Inl e \<Rightarrow> (Returned (HTTPException 401 ''Failed to signup user''), db)
           | Inr hashed \<Rightarrow>
               (case create settings blank now1 now2 db
                       \<lparr>d_username = uname, d_hashed_password = hashed\<rparr> of
                  Inl e \<Rightarrow> (Returned (HTTPException 401 ''Failed to signup user''), db)
                | Inr (u, db') \<Rightarrow> (Created u, db')))"

text \<open>
  \<open>set_like\<close> (lines 397 to 414) and \<open>unset_like\<close> (lines 416 to 433): a
  \<open>$push\<close>, respectively \<open>$pull\<close>, on the user's \<open>liked_posts\<close>, then \<open>$inc\<close> by 1,
  respectively -1, on the post's \<open>likes\<close>; the post is read back and returned.
\<close>

definition set_like :: "database \<Rightarrow> ident \<Rightarrow> ident \<Rightarrow> post option \<times> database" where
  "set_like db post_id user_id =
     (let db1 = db\<lparr>users := find_one_and_update (by_id user_id)
                    (\<lambda>u. u\<lparr>liked_posts := push post_id (liked_posts u)\<rparr>) (users db)\<rparr>;
          db2 = db1\<lparr>posts := find_one_and_update (post_by_id post_id)
                    (\<lambda>p. p\<lparr>likes := likes p + 1\<rparr>) (posts db1)\<rparr>
      in (find_one (post_by_id post_id) (posts db2), db2))"

definition unset_like :: "database \<Rightarrow> ident \<Rightarrow> ident \<Rightarrow> post option \<times> database" where
  "unset_like db post_id user_id =
     (let db1 = db\<lparr>users := find_one_and_update (by_id user_id)
                    (\<lambda>u. u\<lparr>liked_posts := pull post_id (liked_posts u)\<rparr>) (users db)\<rparr>;
          db2 = db1\<lparr>posts := find_one_and_update (post_by_id post_id)
                    (\<lambda>p. p\<lparr>likes := likes p - 1\<rparr>) (posts db1)\<rparr>
      in (find_one (post_by_id post_id) (posts db2), db2))"

section \<open>A small store\<close>

text \<open>Two users and one post, for evaluating the methods on concrete input.\<close>

definition settings0 :: Settings where
  "settings0 = \<lparr>DEFAULT_PROFILE_IMAGE = ''default''\<rparr>"

definition blank0 :: user where
  "blank0 = \<lparr>u_id = ''u0'', username = [], hashed_password = [], name = None,
     surname = None, bio = None, age = None, gender = None, email = None,
     profile_image = [], created_at = 0, updated_at = 0, subscriptions = [],
     subscribers = [], liked_posts = []\<rparr>"

definition alice :: user where
  "alice = blank0\<lparr>u_id := ''u1'', username := ''alice'', profile_image := ''default'',
     bio := Some ''hello''\<rparr>"

definition bob :: user where
  "bob = blank0\<lparr>u_id := ''u2'', username := ''bob'', profile_image := ''default''\<rparr>"

definition post1 :: post where
  "post1 = \<lparr>p_id = ''p1'', p_user_id = ''u1'', p_image = ''img'', likes = 0,
     p_created_at = 0\<rparr>"

definition db0 :: database where
  "db0 = \<lparr>users = [alice, bob], posts = [post1], imgs_profile = []\<rparr>"

definition auth0 :: Auth where
  "auth0 = \<lparr>encode_password = (\<lambda>p. Inr (CHR ''#'' # p))\<rparr>"

definition db_dangling :: database where
  "db_dangling = delete (subscribe db0 ''u1'' ''u2'') ''u2''"

definition db_liked :: database where
  "db_liked = snd (set_like db0 ''p1'' ''u1'')"

definition form0 :: UserIn where
  "form0 = \<lparr>in_name = Some ''Al'', in_surname = None, in_bio = None, in_age = Some 30,
     in_gender = None, in_email = None\<rparr>"

text \<open>A store where the first user has an uploaded image.\<close>

definition db_image :: database where
  "db_image = db0\<lparr>users := [alice\<lparr>profile_image := ''0123456789abcdef01234567''\<rparr>, bob],
     imgs_profile := [([1, 35, 69, 103, 137, 171, 205, 239, 1, 35, 69, 103], [7, 7]),
                      ([0, 0, 0, 0, 0, 0, 0, 0, 0, 0, 0, 0], [8])]\<rparr>"

text \<open>The value a method returns, when it raises nothing.\<close>

definition projr_opt :: "'e + 'a \<Rightarrow> 'a option" where
  "projr_opt r = (case r of Inl e \<Rightarrow> None | Inr v \<Rightarrow> Some v)"

section \<open>Facts about the driver's operations\<close>

lemma find_one_None_iff: "find_one q ds = None \<longleftrightarrow> (\<forall>d \<in> set ds. \<not> q d)"
  by (induction ds) auto

lemma find_one_Some_holds: "find_one q ds = Some d \<Longrightarrow> q d \<and> d \<in> set ds"
  by (induction ds) (auto split: if_splits)

lemma find_one_and_delete_absent:
  "find_one q ds = None \<Longrightarrow> find_one_and_delete q ds = ds"
  by (induction ds) (auto split: if_splits)

lemma find_one_and_delete_split:
  "find_one q ds = Some d \<Longrightarrow>
     \<exists>pre suf. ds = pre @ d # suf \<and> find_one_and_delete q ds = pre @ suf
       \<and> find_one q pre = None"
proof (induction ds)
  case Nil
  then show ?case by simp
next
  case (Cons e es)
  show ?case
  proof (cases "q e")
    case True
    with Cons.prems have "e = d" by simp
    with True have "e # es = [] @ d # es \<and> find_one_and_delete q (e # es) = [] @ es
        \<and> find_one q [] = None"
      by simp
    then show ?thesis by blast
  next
    case False
    with Cons.prems have "find_one q es = Some d" by simp
    from Cons.IH [OF this] obtain pre suf where
      fb: "es = pre @ d # suf" "find_one_and_delete q es = pre @ suf"
          "find_one q pre = None"
      by blast
    with False have "e # es = (e # pre) @ d # suf
        \<and> find_one_and_delete q (e # es) = (e # pre) @ suf
        \<and> find_one q (e # pre) = None"
      by simp
    then show ?thesis by blast
  qed
qed

lemma find_one_and_delete_other:
  "(\<And>d. r d \<Longrightarrow> \<not> q d) \<Longrightarrow> find_one r (find_one_and_delete q ds) = find_one r ds"
  by (induction ds) auto

lemma find_one_and_delete_gone:
  "distinct (map k ds) \<Longrightarrow> (\<And>d. q d \<longleftrightarrow> k d = i) \<Longrightarrow>
     find_one q (find_one_and_delete q ds) = None"
proof (induction ds)
  case Nil
  then show ?case by simp
next
  case (Cons e es)
  show ?case
  proof (cases "q e")
    case True
    with Cons.prems have ke: "k e = i" "k e \<notin> set (map k es)" by auto
    have "\<not> q d" if "d \<in> set es" for d
    proof -
      from that have "k d \<in> set (map k es)" by simp
      with ke have "k d \<noteq> i" by auto
      with Cons.prems(2) show ?thesis by simp
    qed
    then have "find_one q es = None" by (simp add: find_one_None_iff)
    with True show ?thesis by simp
  next
    case False
    with Cons show ?thesis by simp
  qed
qed

lemma find_one_and_update_absent:
  "find_one q ds = None \<Longrightarrow> find_one_and_update q f ds = ds"
  by (induction ds) (auto split: if_splits)

lemma find_one_and_update_fixed:
  "(\<And>d. q d \<Longrightarrow> f d = d) \<Longrightarrow> find_one_and_update q f ds = ds"
  by (induction ds) auto

lemma find_one_and_update_twice:
  "(\<And>d. q d \<Longrightarrow> q (f d)) \<Longrightarrow>
     find_one_and_update q g (find_one_and_update q f ds) = find_one_and_update q (g \<circ> f) ds"
  by (induction ds) auto

lemma find_user_update:
  "(\<And>u. u_id (f u) = u_id u) \<Longrightarrow>
     find_one (by_id i) (find_one_and_update (by_id j) f us) =
       (if i = j then map_option f (find_one (by_id i) us) else find_one (by_id i) us)"
  by (induction us) (auto simp: by_id_def)

lemma find_post_update:
  "(\<And>p. p_id (f p) = p_id p) \<Longrightarrow>
     find_one (post_by_id i) (find_one_and_update (post_by_id j) f ps) =
       (if i = j then map_option f (find_one (post_by_id i) ps)
        else find_one (post_by_id i) ps)"
  by (induction ps) (auto simp: post_by_id_def)

lemma find_user_present:
  "i \<in> u_id ` set us \<Longrightarrow> \<exists>u. find_one (by_id i) us = Some u \<and> u_id u = i"
  by (induction us) (auto simp: by_id_def)

lemma find_user_id: "find_one (by_id i) us = Some u \<Longrightarrow> u_id u = i"
  by (induction us) (auto simp: by_id_def split: if_splits)

lemma find_user_absent:
  "i \<notin> u_id ` set us \<Longrightarrow> find_one (by_id i) us = None"
  by (induction us) (auto simp: by_id_def)

lemma sub_loop_map:
  "sub_loop db ids res = res @ map (\<lambda>i. find_one (by_id i) (users db)) ids"
  by (induction ids arbitrary: res) auto

lemma get_sub_helper_found:
  "find_one (by_id i) (users db) = Some u \<Longrightarrow>
     get_sub_helper db i what_need = Inr (map (\<lambda>j. find_one (by_id j) (users db)) (what_need u))"
  by (simp add: get_sub_helper_def sub_loop_map)

lemma users_subscribe:
  assumes "find_one (by_id A) (users db) = Some a" "find_one (by_id B) (users db) = Some b"
  shows "\<exists>a1 b1. find_one (by_id A) (users (subscribe db A B)) = Some a1
     \<and> find_one (by_id B) (users (subscribe db A B)) = Some b1
     \<and> subscriptions a1 = subscriptions a @ [B]
     \<and> subscribers b1 = subscribers b @ [A]"
  using assms by (auto simp: subscribe_def Let_def find_user_update push_def)

lemma users_unsubsribe:
  assumes "find_one (by_id A) (users db) = Some a" "find_one (by_id B) (users db) = Some b"
  shows "\<exists>a1 b1. find_one (by_id A) (users (unsubsribe db A B)) = Some a1
     \<and> find_one (by_id B) (users (unsubsribe db A B)) = Some b1
     \<and> subscriptions a1 = pull B (subscriptions a)
     \<and> subscribers b1 = pull A (subscribers b)"
  using assms by (auto simp: unsubsribe_def Let_def find_user_update)


lemmas store_defs = db0_def alice_def bob_def blank0_def post1_def

lemma pull_absent: "v \<notin> set (pull v vs)"
  by (simp add: pull_def)

lemma pull_push: "pull v (push v vs) = pull v vs"
  by (simp add: pull_def push_def)

lemma resolved_ids:
  "i \<notin> set ids \<Longrightarrow>
     i \<notin> u_id ` Option.these (set (map (\<lambda>j. find_one (by_id j) us) ids))"
  by (auto simp: in_these_eq) (metis find_user_id)

section \<open>Unique ids\<close>

text \<open>
  The store keeps the ids of a collection unique. Every method of the repository keeps
  them so: the updates leave the ids alone, \<open>delete\<close> removes a document, and
  \<open>insert_one\<close> refuses an id that is taken.
\<close>

lemma find_one_and_update_keys:
  "(\<And>d. k (f d) = k d) \<Longrightarrow> map k (find_one_and_update q f ds) = map k ds"
  by (induction ds) auto

lemma find_one_and_delete_distinct:
  "distinct (map k ds) \<Longrightarrow> distinct (map k (find_one_and_delete q ds))"
proof (induction ds)
  case Nil
  then show ?case by simp
next
  case (Cons e es)
  have "set (find_one_and_delete q es) \<subseteq> set es"
    by (induction es) auto
  with Cons show ?case by auto
qed

lemma unique_ids_subscribe:
  "distinct (map u_id (users db)) \<Longrightarrow> distinct (map u_id (users (subscribe db a b)))"
  by (simp add: subscribe_def Let_def find_one_and_update_keys)

lemma unique_ids_unsubsribe:
  "distinct (map u_id (users db)) \<Longrightarrow> distinct (map u_id (users (unsubsribe db a b)))"
  by (simp add: unsubsribe_def Let_def find_one_and_update_keys)

lemma unique_ids_update:
  "distinct (map u_id (users db)) \<Longrightarrow> distinct (map u_id (users (snd (update db i ui))))"
  by (simp add: update_def Let_def set_profile_def find_one_and_update_keys)

lemma unique_ids_set_like:
  "distinct (map u_id (users db)) \<Longrightarrow> distinct (map u_id (users (snd (set_like db p i))))"
  by (simp add: set_like_def Let_def find_one_and_update_keys)

lemma unique_ids_unset_like:
  "distinct (map u_id (users db)) \<Longrightarrow> distinct (map u_id (users (snd (unset_like db p i))))"
  by (simp add: unset_like_def Let_def find_one_and_update_keys)

lemma unique_ids_delete:
  "distinct (map u_id (users db)) \<Longrightarrow> distinct (map u_id (users (delete db i)))"
  by (simp add: delete_def find_one_and_delete_distinct)

lemma unique_ids_signup:
  "distinct (map u_id (users db)) \<Longrightarrow>
     distinct (map u_id (users (snd (signup settings auth_handler blank now1 now2 db n pw))))"
  by (auto simp: signup_def create_def insert_one_def Let_def split: sum.splits if_splits)

lemma unique_ids_update_profile_image:
  "distinct (map u_id (users db)) \<Longrightarrow> update_profile_image settings db i f = Inr (r, db') \<Longrightarrow>
     distinct (map u_id (users db'))"
  by (auto simp: update_profile_image_def set_profile_image_def Let_def
        find_one_and_update_keys split: option.splits sum.splits if_splits)

section \<open>Subscriptions\<close>

text \<open>
  C1. For two users A and B in the store: after \<open>subscribe\<close> the subscriptions of A end
  with B and the subscribers of B end with A, \<open>get_subscriptions\<close> of A contains the
  record of B and \<open>get_subscribers\<close> of B the record of A. After the following
  \<open>unsubsribe\<close>, B is in no position of A's subscriptions and A in none of B's
  subscribers, and the two listings hold no record with the id of B, respectively of A.
\<close>

theorem subscribe_then_unsubsribe:
  assumes "A \<in> u_id ` set (users db)" and "B \<in> u_id ` set (users db)"
  shows "\<exists>a b. find_one (by_id A) (users db) = Some a \<and> find_one (by_id B) (users db) = Some b
    \<and> (let db1 = subscribe db A B; db2 = unsubsribe db1 A B in
      (\<exists>a1 b1 ra rb.
          find_one (by_id A) (users db1) = Some a1 \<and> find_one (by_id B) (users db1) = Some b1
        \<and> subscriptions a1 = subscriptions a @ [B] \<and> subscribers b1 = subscribers b @ [A]
        \<and> get_subscriptions db1 A = Inr ra \<and> Some b1 \<in> set ra
        \<and> get_subscribers db1 B = Inr rb \<and> Some a1 \<in> set rb)
    \<and> (\<exists>a2 b2 ra rb.
          find_one (by_id A) (users db2) = Some a2 \<and> find_one (by_id B) (users db2) = Some b2
        \<and> subscriptions a2 = pull B (subscriptions a) \<and> B \<notin> set (subscriptions a2)
        \<and> subscribers b2 = pull A (subscribers b) \<and> A \<notin> set (subscribers b2)
        \<and> get_subscriptions db2 A = Inr ra \<and> B \<notin> u_id ` Option.these (set ra)
        \<and> get_subscribers db2 B = Inr rb \<and> A \<notin> u_id ` Option.these (set rb)))"
proof -
  from assms obtain a b where
    ab: "find_one (by_id A) (users db) = Some a" "find_one (by_id B) (users db) = Some b"
    using find_user_present by blast
  define db1 where "db1 = subscribe db A B"
  define db2 where "db2 = unsubsribe db1 A B"
  from users_subscribe [OF ab] obtain a1 b1 where
    s1: "find_one (by_id A) (users db1) = Some a1" "find_one (by_id B) (users db1) = Some b1"
        "subscriptions a1 = subscriptions a @ [B]" "subscribers b1 = subscribers b @ [A]"
    unfolding db1_def by blast
  have g1: "get_subscriptions db1 A
      = Inr (map (\<lambda>j. find_one (by_id j) (users db1)) (subscriptions a1))"
    using s1(1) by (simp add: get_subscriptions_def get_sub_helper_found)
  have g2: "get_subscribers db1 B
      = Inr (map (\<lambda>j. find_one (by_id j) (users db1)) (subscribers b1))"
    using s1(2) by (simp add: get_subscribers_def get_sub_helper_found)
  have m1: "Some b1 \<in> set (map (\<lambda>j. find_one (by_id j) (users db1)) (subscriptions a1))"
    using s1 by simp
  have m2: "Some a1 \<in> set (map (\<lambda>j. find_one (by_id j) (users db1)) (subscribers b1))"
    using s1 by simp
  from users_unsubsribe [OF s1(1,2)] obtain a2 b2 where
    s2: "find_one (by_id A) (users db2) = Some a2" "find_one (by_id B) (users db2) = Some b2"
        "subscriptions a2 = pull B (subscriptions a1)" "subscribers b2 = pull A (subscribers b1)"
    unfolding db2_def by blast
  have p1: "subscriptions a2 = pull B (subscriptions a)"
    using s2(3) s1(3) pull_push [of B "subscriptions a"] by (simp add: push_def)
  have p2: "subscribers b2 = pull A (subscribers b)"
    using s2(4) s1(4) pull_push [of A "subscribers b"] by (simp add: push_def)
  have n1: "B \<notin> set (subscriptions a2)" by (simp add: p1 pull_absent)
  have n2: "A \<notin> set (subscribers b2)" by (simp add: p2 pull_absent)
  have g3: "get_subscriptions db2 A
      = Inr (map (\<lambda>j. find_one (by_id j) (users db2)) (subscriptions a2))"
    using s2(1) by (simp add: get_subscriptions_def get_sub_helper_found)
  have g4: "get_subscribers db2 B
      = Inr (map (\<lambda>j. find_one (by_id j) (users db2)) (subscribers b2))"
    using s2(2) by (simp add: get_subscribers_def get_sub_helper_found)
  have first: "\<exists>a1 b1 ra rb.
          find_one (by_id A) (users db1) = Some a1 \<and> find_one (by_id B) (users db1) = Some b1
        \<and> subscriptions a1 = subscriptions a @ [B] \<and> subscribers b1 = subscribers b @ [A]
        \<and> get_subscriptions db1 A = Inr ra \<and> Some b1 \<in> set ra
        \<and> get_subscribers db1 B = Inr rb \<and> Some a1 \<in> set rb"
    using s1 g1 g2 m1 m2 by blast
  have second: "\<exists>a2 b2 ra rb.
          find_one (by_id A) (users db2) = Some a2 \<and> find_one (by_id B) (users db2) = Some b2
        \<and> subscriptions a2 = pull B (subscriptions a) \<and> B \<notin> set (subscriptions a2)
        \<and> subscribers b2 = pull A (subscribers b) \<and> A \<notin> set (subscribers b2)
        \<and> get_subscriptions db2 A = Inr ra \<and> B \<notin> u_id ` Option.these (set ra)
        \<and> get_subscribers db2 B = Inr rb \<and> A \<notin> u_id ` Option.these (set rb)"
    using s2(1,2) p1 p2 n1 n2 g3 g4 resolved_ids [OF n1] resolved_ids [OF n2] by blast
  from ab first second show ?thesis
    unfolding db1_def db2_def Let_def by blast
qed

theorem subscribe_then_unsubsribe_witness:
  "''u1'' \<in> u_id ` set (users db0) \<and> ''u2'' \<in> u_id ` set (users db0)
   \<and> get_subscriptions (subscribe db0 ''u1'' ''u2'') ''u1''
       = Inr [Some (bob\<lparr>subscribers := [''u1'']\<rparr>)]
   \<and> get_subscribers (subscribe db0 ''u1'' ''u2'') ''u2''
       = Inr [Some (alice\<lparr>subscriptions := [''u2'']\<rparr>)]
   \<and> unsubsribe (subscribe db0 ''u1'' ''u2'') ''u1'' ''u2'' = db0
   \<and> get_subscriptions db0 ''u1'' = Inr []
   \<and> (\<exists>a1. find_one (by_id ''u1'') (users (subscribe db0 ''u1'' ''u2'')) = Some a1
         \<and> subscriptions a1 = subscriptions alice @ [''u2''])"
proof -
  have h1: "''u1'' \<in> u_id ` set (users db0)" by (simp add: store_defs)
  have h2: "''u2'' \<in> u_id ` set (users db0)" by (simp add: store_defs)
  have a: "find_one (by_id ''u1'') (users db0) = Some alice"
    by (simp add: db0_def by_id_def alice_def)
  have e1: "get_subscriptions (subscribe db0 ''u1'' ''u2'') ''u1''
       = Inr [Some (bob\<lparr>subscribers := [''u1'']\<rparr>)]"
    by (simp add: get_subscriptions_def get_sub_helper_def subscribe_def push_def by_id_def
          store_defs)
  have e2: "get_subscribers (subscribe db0 ''u1'' ''u2'') ''u2''
       = Inr [Some (alice\<lparr>subscriptions := [''u2'']\<rparr>)]"
    by (simp add: get_subscribers_def get_sub_helper_def subscribe_def push_def by_id_def
          store_defs)
  have e3: "unsubsribe (subscribe db0 ''u1'' ''u2'') ''u1'' ''u2'' = db0"
    by (simp add: unsubsribe_def subscribe_def push_def pull_def by_id_def store_defs)
  have e4: "get_subscriptions db0 ''u1'' = Inr []"
    by (simp add: get_subscriptions_def get_sub_helper_def by_id_def store_defs)
  from subscribe_then_unsubsribe [OF h1 h2] a
  have "\<exists>a1. find_one (by_id ''u1'') (users (subscribe db0 ''u1'' ''u2'')) = Some a1
         \<and> subscriptions a1 = subscriptions alice @ [''u2'']"
    unfolding Let_def by auto
  with h1 h2 e1 e2 e3 e4 show ?thesis by blast
qed

section \<open>Listing subscriptions with ids that no longer resolve\<close>

lemma resolved_or_None:
  "map_option u_id (find_one (by_id j) us) = (if j \<in> u_id ` set us then Some j else None)"
  by (induction us) (auto simp: by_id_def)

text \<open>
  C10. For a stored user, \<open>get_subscriptions\<close> and \<open>get_subscribers\<close> return, without
  raising, one entry for each id of the stored sequence, in the stored order: the record
  with that id when it resolves, \<open>None\<close> when it does not.
\<close>

theorem get_subscriptions_keeps_unresolved:
  assumes "find_one (by_id i) (users db) = Some u"
  shows "\<exists>ra rb. get_subscriptions db i = Inr ra \<and> get_subscribers db i = Inr rb
    \<and> length ra = length (subscriptions u) \<and> length rb = length (subscribers u)
    \<and> ra = map (\<lambda>j. find_one (by_id j) (users db)) (subscriptions u)
    \<and> rb = map (\<lambda>j. find_one (by_id j) (users db)) (subscribers u)
    \<and> map (map_option u_id) ra
        = map (\<lambda>j. if j \<in> u_id ` set (users db) then Some j else None) (subscriptions u)
    \<and> map (map_option u_id) rb
        = map (\<lambda>j. if j \<in> u_id ` set (users db) then Some j else None) (subscribers u)"
  using assms
  by (simp add: get_subscriptions_def get_subscribers_def get_sub_helper_found resolved_or_None)

theorem get_subscriptions_keeps_unresolved_witness:
  "find_one (by_id ''u1'') (users db_dangling) = Some (alice\<lparr>subscriptions := [''u2'']\<rparr>)
   \<and> ''u2'' \<notin> u_id ` set (users db_dangling)
   \<and> get_subscriptions db_dangling ''u1'' = Inr [None]
   \<and> get_subscribers db_dangling ''u1'' = Inr []"
proof -
  have us: "users db_dangling = [alice\<lparr>subscriptions := [''u2'']\<rparr>]"
    by (simp add: db_dangling_def delete_def subscribe_def push_def by_id_def store_defs)
  have h: "find_one (by_id ''u1'') (users db_dangling) = Some (alice\<lparr>subscriptions := [''u2'']\<rparr>)"
    by (simp add: us by_id_def alice_def)
  have n: "''u2'' \<notin> u_id ` set (users db_dangling)"
    by (simp add: us alice_def)
  from get_subscriptions_keeps_unresolved [OF h] n
  have "get_subscriptions db_dangling ''u1'' = Inr [None]
      \<and> get_subscribers db_dangling ''u1'' = Inr []"
    by (auto simp: us by_id_def store_defs)
  with h n show ?thesis by blast
qed

section \<open>Deleting a user\<close>

lemma find_user_delete_other:
  "j \<noteq> i \<Longrightarrow>
     find_one (by_id j) (find_one_and_delete (by_id i) us) = find_one (by_id j) us"
  by (rule find_one_and_delete_other) (simp add: by_id_def)

lemma find_user_delete_same:
  "distinct (map u_id us) \<Longrightarrow> find_one (by_id i) (find_one_and_delete (by_id i) us) = None"
  by (rule find_one_and_delete_gone [where k = u_id and i = i]) (simp_all add: by_id_def)

lemma delete_users_shape:
  "case find_one (by_id i) us of
     None \<Rightarrow> find_one_and_delete (by_id i) us = us
   | Some u \<Rightarrow> (\<exists>pre suf. us = pre @ u # suf \<and> find_one_and_delete (by_id i) us = pre @ suf
        \<and> i \<notin> u_id ` set pre)"
proof (cases "find_one (by_id i) us")
  case None
  then show ?thesis by (simp add: find_one_and_delete_absent)
next
  case (Some u)
  from find_one_and_delete_split [OF Some] obtain pre suf where
    ps: "us = pre @ u # suf" "find_one_and_delete (by_id i) us = pre @ suf"
        "find_one (by_id i) pre = None"
    by blast
  from ps(3) have "i \<notin> u_id ` set pre"
    by (auto simp: find_one_None_iff by_id_def)
  with ps Some show ?thesis by auto
qed

text \<open>
  C9. \<open>delete\<close> leaves the posts and the stored images as they are. Of the users it
  removes the one record found under the id and nothing else: the records before it and
  after it stay, in their order, so every other id resolves to the record it resolved to
  before (with its subscriptions, subscribers and liked posts). Since ids are unique in a
  collection, the id resolves to nothing afterwards.
\<close>

theorem delete_no_cascade:
  "posts (delete db i) = posts db \<and> imgs_profile (delete db i) = imgs_profile db
   \<and> (case find_one (by_id i) (users db) of
        None \<Rightarrow> users (delete db i) = users db
      | Some u \<Rightarrow> (\<exists>pre suf. users db = pre @ u # suf \<and> users (delete db i) = pre @ suf
          \<and> i \<notin> u_id ` set pre))
   \<and> (\<forall>j. j \<noteq> i \<longrightarrow> find_one (by_id j) (users (delete db i)) = find_one (by_id j) (users db))
   \<and> (distinct (map u_id (users db)) \<longrightarrow> i \<notin> u_id ` set (users (delete db i)))"
proof -
  have gone: "i \<notin> u_id ` set (users (delete db i))" if "distinct (map u_id (users db))"
  proof -
    from find_user_delete_same [OF that, of i]
    have "find_one (by_id i) (users (delete db i)) = None" by (simp add: delete_def)
    then show ?thesis by (auto simp: find_one_None_iff by_id_def)
  qed
  have u: "users (delete db i) = find_one_and_delete (by_id i) (users db)"
    by (simp add: delete_def)
  have shape: "case find_one (by_id i) (users db) of
        None \<Rightarrow> users (delete db i) = users db
      | Some u \<Rightarrow> (\<exists>pre suf. users db = pre @ u # suf \<and> users (delete db i) = pre @ suf
          \<and> i \<notin> u_id ` set pre)"
    unfolding u by (rule delete_users_shape)
  have frame: "posts (delete db i) = posts db \<and> imgs_profile (delete db i) = imgs_profile db"
    by (simp add: delete_def)
  have others: "\<forall>j. j \<noteq> i \<longrightarrow>
      find_one (by_id j) (users (delete db i)) = find_one (by_id j) (users db)"
    by (simp add: u find_user_delete_other)
  from frame shape others gone show ?thesis by blast
qed

theorem delete_no_cascade_witness:
  "''u1'' \<noteq> ''u2'' \<and> distinct (map u_id (users (subscribe db0 ''u1'' ''u2'')))
   \<and> find_one (by_id ''u1'') (users (delete (subscribe db0 ''u1'' ''u2'') ''u2''))
       = Some (alice\<lparr>subscriptions := [''u2'']\<rparr>)
   \<and> ''u2'' \<notin> u_id ` set (users (delete (subscribe db0 ''u1'' ''u2'') ''u2''))
   \<and> posts (delete (subscribe db0 ''u1'' ''u2'') ''u2'') = [post1]"
proof -
  have us: "users (subscribe db0 ''u1'' ''u2'')
      = [alice\<lparr>subscriptions := [''u2'']\<rparr>, bob\<lparr>subscribers := [''u1'']\<rparr>]"
    by (simp add: subscribe_def push_def by_id_def store_defs)
  have ps: "posts (subscribe db0 ''u1'' ''u2'') = [post1]"
    by (simp add: subscribe_def db0_def)
  have h1: "''u1'' \<noteq> ''u2''" by simp
  have h2: "distinct (map u_id (users (subscribe db0 ''u1'' ''u2'')))"
    unfolding us by (simp add: alice_def bob_def blank0_def)
  have f: "find_one (by_id ''u1'') (users (subscribe db0 ''u1'' ''u2''))
      = Some (alice\<lparr>subscriptions := [''u2'']\<rparr>)"
    unfolding us by (simp add: by_id_def alice_def blank0_def)
  from delete_no_cascade [of "subscribe db0 ''u1'' ''u2''" "''u2''"] h1 h2 f ps
  show ?thesis by simp
qed

section \<open>Looking a user up\<close>

lemma find_username_absent:
  "n \<notin> username ` set us \<Longrightarrow> find_one (by_username n) us = None"
  by (induction us) (auto simp: by_username_def)

lemma find_username_present:
  "n \<in> username ` set us \<Longrightarrow> find_one (by_username n) us \<noteq> None"
  by (induction us) (auto simp: by_username_def)

text \<open>
  C4, as the code has it. For an id that no user of the store has, \<open>get_by_id\<close> raises
  the \<open>HTTPException\<close> with status 404. For a username that no user has,
  \<open>get_by_username\<close> raises nothing: it returns \<open>None\<close>.
\<close>

theorem lookups_of_absent_keys:
  assumes "i \<notin> u_id ` set (users db)" and "n \<notin> username ` set (users db)"
  shows "get_by_id db i
      = Inl (HTTPException HTTP_404_NOT_FOUND (''User with ID '' @ i @ '' not found''))
    \<and> get_by_username db n = None"
  using assms
  by (simp add: get_by_id_def get_by_username_def find_user_absent find_username_absent)

theorem lookups_of_absent_keys_witness:
  "''zz'' \<notin> u_id ` set (users db0) \<and> ''ghost'' \<notin> username ` set (users db0)
   \<and> get_by_id db0 ''zz'' = Inl (HTTPException 404 ''User with ID zz not found'')
   \<and> get_by_username db0 ''ghost'' = None"
proof -
  have h1: "''zz'' \<notin> u_id ` set (users db0)" by (simp add: store_defs)
  have h2: "''ghost'' \<notin> username ` set (users db0)" by (simp add: store_defs)
  from lookups_of_absent_keys [OF h1 h2] h1 h2 show ?thesis
    by (simp add: HTTP_404_NOT_FOUND_def)
qed

text \<open>
  The claim as written fails for \<open>get_by_username\<close>: the name \<open>ghost\<close> is not in the
  store, and the result is \<open>None\<close>.
\<close>

theorem get_by_username_absent_counterexample:
  "''ghost'' \<notin> username ` set (users db0) \<and> get_by_username db0 ''ghost'' = None"
  by (simp add: get_by_username_def by_username_def store_defs)

section \<open>Listing users\<close>

lemma get_all_ignores_skip: "get_all db limit skip = get_all db limit 0"
  by (simp add: get_all_def)

text \<open>
  C6, as the code has it. With a positive limit, \<open>get_all\<close> returns at most that many
  users, and they are a run of the stored users in storage order.
\<close>

theorem get_all_at_most_limit:
  assumes "0 < limit"
  shows "length (get_all db limit skip) \<le> nat limit
    \<and> (\<exists>pre suf. users db = pre @ get_all db limit skip @ suf)"
proof -
  from assms have g: "get_all db limit skip = take (nat limit) (users db)"
    by (simp add: get_all_def find_limit_def)
  have "users db = [] @ take (nat limit) (users db) @ drop (nat limit) (users db)"
    by simp
  then have "\<exists>pre suf. users db = pre @ take (nat limit) (users db) @ suf"
    by blast
  with g show ?thesis by simp
qed

theorem get_all_at_most_limit_witness:
  "(0::int) < 1 \<and> length (get_all db0 1 0) \<le> nat 1 \<and> get_all db0 1 0 = [alice]"
proof -
  have h: "(0::int) < 1" by simp
  have e: "get_all db0 1 0 = [alice]"
    by (simp add: get_all_def find_limit_def db0_def)
  from get_all_at_most_limit [OF h, of db0 0] h e show ?thesis by simp
qed

text \<open>
  The claim as written fails at limit 0, which the driver reads as no limit: both users
  are returned.
\<close>

theorem get_all_limit_zero_counterexample:
  "get_all db0 0 0 = [alice, bob] \<and> \<not> length (get_all db0 0 0) \<le> nat 0"
  by (simp add: get_all_def find_limit_def db0_def)

section \<open>Likes\<close>

lemma find_one_and_update_first:
  "find_one q ds = Some d \<Longrightarrow> f d = d \<Longrightarrow> find_one_and_update q f ds = ds"
  by (induction ds) (auto split: if_splits)

lemma find_post_present:
  "i \<in> p_id ` set ps \<Longrightarrow> \<exists>p. find_one (post_by_id i) ps = Some p \<and> p_id p = i"
  by (induction ps) (auto simp: post_by_id_def)

lemma pull_push_absent: "v \<notin> set vs \<Longrightarrow> pull v (push v vs) = vs"
  by (auto simp: pull_def push_def filter_id_conv)

lemma posts_unset_set_like:
  "posts (snd (unset_like (snd (set_like db P U)) P U)) = posts db"
proof -
  have "find_one_and_update (post_by_id P) (\<lambda>p. p\<lparr>likes := likes p - 1\<rparr>)
          (find_one_and_update (post_by_id P) (\<lambda>p. p\<lparr>likes := likes p + 1\<rparr>) (posts db))
      = find_one_and_update (post_by_id P)
          ((\<lambda>p. p\<lparr>likes := likes p - 1\<rparr>) \<circ> (\<lambda>p. p\<lparr>likes := likes p + 1\<rparr>)) (posts db)"
    by (rule find_one_and_update_twice) (simp add: post_by_id_def)
  also have "\<dots> = posts db"
    by (rule find_one_and_update_fixed) simp
  finally show ?thesis
    by (simp add: set_like_def unset_like_def Let_def)
qed

lemma users_unset_set_like:
  "users (snd (unset_like (snd (set_like db P U)) P U))
     = find_one_and_update (by_id U) (\<lambda>u. u\<lparr>liked_posts := pull P (liked_posts u)\<rparr>) (users db)"
proof -
  have "find_one_and_update (by_id U) (\<lambda>u. u\<lparr>liked_posts := pull P (liked_posts u)\<rparr>)
          (find_one_and_update (by_id U) (\<lambda>u. u\<lparr>liked_posts := push P (liked_posts u)\<rparr>)
             (users db))
      = find_one_and_update (by_id U)
          ((\<lambda>u. u\<lparr>liked_posts := pull P (liked_posts u)\<rparr>)
             \<circ> (\<lambda>u. u\<lparr>liked_posts := push P (liked_posts u)\<rparr>)) (users db)"
    by (rule find_one_and_update_twice) (simp add: by_id_def)
  also have "(\<lambda>u. u\<lparr>liked_posts := pull P (liked_posts u)\<rparr>)
             \<circ> (\<lambda>u. u\<lparr>liked_posts := push P (liked_posts u)\<rparr>)
      = (\<lambda>u::user. u\<lparr>liked_posts := pull P (liked_posts u)\<rparr>)"
    by (simp add: fun_eq_iff pull_push)
  finally show ?thesis
    by (simp add: set_like_def unset_like_def Let_def)
qed

lemma unset_set_like_restores:
  assumes "find_one (by_id U) (users db) = Some u" and "P \<notin> set (liked_posts u)"
  shows "snd (unset_like (snd (set_like db P U)) P U) = db"
proof -
  have "pull P (liked_posts u) = liked_posts u"
    using assms(2) by (auto simp: pull_def filter_id_conv)
  then have "u\<lparr>liked_posts := pull P (liked_posts u)\<rparr> = u" by simp
  with assms(1) have "users (snd (unset_like (snd (set_like db P U)) P U)) = users db"
    unfolding users_unset_set_like by (rule find_one_and_update_first)
  moreover have "imgs_profile (snd (unset_like (snd (set_like db P U)) P U)) = imgs_profile db"
    by (simp add: set_like_def unset_like_def Let_def)
  ultimately show ?thesis
    using posts_unset_set_like [of db P U] by (simp add: database.equality)
qed

lemma set_like_effect:
  assumes "find_one (post_by_id P) (posts db) = Some p" and "find_one (by_id U) (users db) = Some u"
  shows "fst (set_like db P U) = Some (p\<lparr>likes := likes p + 1\<rparr>)
    \<and> find_one (post_by_id P) (posts (snd (set_like db P U))) = Some (p\<lparr>likes := likes p + 1\<rparr>)
    \<and> find_one (by_id U) (users (snd (set_like db P U)))
        = Some (u\<lparr>liked_posts := liked_posts u @ [P]\<rparr>)"
  using assms by (simp add: set_like_def Let_def find_post_update find_user_update push_def)

lemma unset_like_effect:
  assumes "find_one (post_by_id P) (posts db) = Some p" and "find_one (by_id U) (users db) = Some u"
  shows "fst (unset_like db P U) = Some (p\<lparr>likes := likes p - 1\<rparr>)
    \<and> find_one (post_by_id P) (posts (snd (unset_like db P U))) = Some (p\<lparr>likes := likes p - 1\<rparr>)
    \<and> find_one (by_id U) (users (snd (unset_like db P U)))
        = Some (u\<lparr>liked_posts := pull P (liked_posts u)\<rparr>)"
  using assms by (simp add: unset_like_def Let_def find_post_update find_user_update)

lemma unset_like_post:
  assumes "find_one (post_by_id P) (posts db) = Some p"
  shows "fst (unset_like db P U) = Some (p\<lparr>likes := likes p - 1\<rparr>)
    \<and> find_one (post_by_id P) (posts (snd (unset_like db P U))) = Some (p\<lparr>likes := likes p - 1\<rparr>)"
  using assms by (simp add: unset_like_def Let_def find_post_update)

text \<open>
  C2, as the code has it. For a post P and a user U of the store, \<open>set_like\<close> returns P
  with its counter raised by exactly 1 and appends P to the liked posts of U. The following
  \<open>unset_like\<close> returns P with the counter it had before and leaves the posts as they
  were; of the liked posts of U it removes every occurrence of P, so they are the ones
  from before when P was not among them, and then the whole store is as it was.
\<close>

theorem set_like_then_unset_like:
  assumes "P \<in> p_id ` set (posts db)" and "U \<in> u_id ` set (users db)"
  shows "\<exists>p u p1 u1 p2 u2.
      find_one (post_by_id P) (posts db) = Some p \<and> find_one (by_id U) (users db) = Some u
    \<and> fst (set_like db P U) = Some p1 \<and> likes p1 = likes p + 1
    \<and> find_one (by_id U) (users (snd (set_like db P U))) = Some u1
    \<and> liked_posts u1 = liked_posts u @ [P]
    \<and> fst (unset_like (snd (set_like db P U)) P U) = Some p2 \<and> p2 = p
    \<and> posts (snd (unset_like (snd (set_like db P U)) P U)) = posts db
    \<and> find_one (by_id U) (users (snd (unset_like (snd (set_like db P U)) P U))) = Some u2
    \<and> liked_posts u2 = pull P (liked_posts u)
    \<and> (P \<notin> set (liked_posts u) \<longrightarrow>
          u2 = u \<and> snd (unset_like (snd (set_like db P U)) P U) = db)"
proof -
  from assms obtain p u where
    pu: "find_one (post_by_id P) (posts db) = Some p" "find_one (by_id U) (users db) = Some u"
    using find_post_present find_user_present by blast
  define db1 where "db1 = snd (set_like db P U)"
  define p1 where "p1 = p\<lparr>likes := likes p + 1\<rparr>"
  define u1 where "u1 = u\<lparr>liked_posts := liked_posts u @ [P]\<rparr>"
  from set_like_effect [OF pu] have
    s: "fst (set_like db P U) = Some p1" "find_one (post_by_id P) (posts db1) = Some p1"
       "find_one (by_id U) (users db1) = Some u1"
    by (simp_all add: db1_def p1_def u1_def)
  define u2 where "u2 = u1\<lparr>liked_posts := pull P (liked_posts u1)\<rparr>"
  from unset_like_effect [OF s(2,3)] have
    t: "fst (unset_like db1 P U) = Some (p1\<lparr>likes := likes p1 - 1\<rparr>)"
       "find_one (by_id U) (users (snd (unset_like db1 P U))) = Some u2"
    by (simp_all add: u2_def)
  have restored: "p1\<lparr>likes := likes p1 - 1\<rparr> = p" by (simp add: p1_def)
  have l2: "liked_posts u2 = pull P (liked_posts u)"
    using pull_push [of P "liked_posts u"] by (simp add: u2_def u1_def push_def)
  have same: "u2 = u \<and> snd (unset_like db1 P U) = db" if "P \<notin> set (liked_posts u)"
  proof -
    from that have "pull P (liked_posts u) = liked_posts u"
      by (auto simp: pull_def filter_id_conv)
    then have "u2 = u" using l2 by (simp add: u2_def u1_def)
    with unset_set_like_restores [OF pu(2) that] show ?thesis by (simp add: db1_def)
  qed
  have "likes p1 = likes p + 1" "liked_posts u1 = liked_posts u @ [P]"
    by (simp_all add: p1_def u1_def)
  with pu s t restored l2 same posts_unset_set_like [of db P U] show ?thesis
    unfolding db1_def by auto
qed

theorem set_like_then_unset_like_witness:
  "''p1'' \<in> p_id ` set (posts db0) \<and> ''u1'' \<in> u_id ` set (users db0)
   \<and> ''p1'' \<notin> set (liked_posts alice)
   \<and> map_option likes (fst (set_like db0 ''p1'' ''u1'')) = Some 1
   \<and> snd (unset_like (snd (set_like db0 ''p1'' ''u1'')) ''p1'' ''u1'') = db0"
proof -
  have h1: "''p1'' \<in> p_id ` set (posts db0)" by (simp add: store_defs)
  have h2: "''u1'' \<in> u_id ` set (users db0)" by (simp add: store_defs)
  have h3: "''p1'' \<notin> set (liked_posts alice)" by (simp add: store_defs)
  have a: "find_one (by_id ''u1'') (users db0) = Some alice"
    by (simp add: db0_def by_id_def alice_def)
  have b: "find_one (post_by_id ''p1'') (posts db0) = Some post1"
    by (simp add: db0_def post_by_id_def post1_def)
  from set_like_then_unset_like [OF h1 h2] a b h3
  have "map_option likes (fst (set_like db0 ''p1'' ''u1'')) = Some 1
      \<and> snd (unset_like (snd (set_like db0 ''p1'' ''u1'')) ''p1'' ''u1'') = db0"
    by (auto simp: post1_def)
  with h1 h2 h3 show ?thesis by blast
qed

text \<open>
  The claim as written fails for a user who has liked the post before: the first like is
  lost with the second.
\<close>

theorem unset_like_not_inverse_counterexample:
  "map liked_posts (users db_liked) = [[''p1''], []]
   \<and> map liked_posts (users (snd (unset_like (snd (set_like db_liked ''p1'' ''u1'')) ''p1'' ''u1'')))
       = [[], []]"
  by (simp add: db_liked_def set_like_def unset_like_def push_def pull_def by_id_def
        post_by_id_def store_defs)

text \<open>
  C8, as the code has it. \<open>unset_like\<close> lowers the counter of a stored post by exactly 1
  whoever the user is and whatever the user has liked; the counter stays at or above
  zero only when it was at least 1.
\<close>

theorem unset_like_decrements:
  assumes "find_one (post_by_id P) (posts db) = Some p"
  shows "\<exists>p'. fst (unset_like db P U) = Some p'
    \<and> find_one (post_by_id P) (posts (snd (unset_like db P U))) = Some p'
    \<and> likes p' = likes p - 1 \<and> (0 \<le> likes p' \<longleftrightarrow> 1 \<le> likes p)"
  using unset_like_post [OF assms, of U] by auto

theorem unset_like_decrements_witness:
  "find_one (post_by_id ''p1'') (posts db_liked) = Some (post1\<lparr>likes := 1\<rparr>)
   \<and> map_option likes (fst (unset_like db_liked ''p1'' ''u2'')) = Some 0"
proof -
  have h: "find_one (post_by_id ''p1'') (posts db_liked) = Some (post1\<lparr>likes := 1\<rparr>)"
    by (simp add: db_liked_def set_like_def post_by_id_def store_defs)
  from unset_like_decrements [OF h, of "''u2''"] h show ?thesis by auto
qed

text \<open>
  The claim as written fails on a post nobody has liked: the counter goes from 0 to -1.
\<close>

theorem unset_like_negative_counterexample:
  "likes post1 = 0 \<and> ''p1'' \<notin> set (liked_posts alice)
   \<and> map_option likes (fst (unset_like db0 ''p1'' ''u1'')) = Some (- 1)
   \<and> map likes (posts (snd (unset_like db0 ''p1'' ''u1''))) = [- 1]"
  by (simp add: unset_like_def pull_def by_id_def post_by_id_def store_defs)

section \<open>Editing the profile\<close>

text \<open>
  C7, as the code has it. \<open>update\<close> writes all six profile fields from the input,
  \<open>None\<close> where the input has none (and the text \<open>None\<close> for such an age); every other
  field of the record keeps its value, every other user, the posts and the images are
  untouched, and the record returned is the one stored after the update.
\<close>

theorem update_sets_six_fields:
  assumes "find_one (by_id i) (users db) = Some u"
  shows "\<exists>u'. fst (update db i ui) = Some u'
    \<and> find_one (by_id i) (users (snd (update db i ui))) = Some u'
    \<and> name u' = in_name ui \<and> surname u' = in_surname ui \<and> bio u' = in_bio ui
    \<and> age u' = Some (py_str (in_age ui)) \<and> gender u' = in_gender ui
    \<and> email u' = in_email ui
    \<and> u_id u' = u_id u \<and> username u' = username u
    \<and> hashed_password u' = hashed_password u \<and> profile_image u' = profile_image u
    \<and> created_at u' = created_at u \<and> updated_at u' = updated_at u
    \<and> subscriptions u' = subscriptions u \<and> subscribers u' = subscribers u
    \<and> liked_posts u' = liked_posts u
    \<and> posts (snd (update db i ui)) = posts db
    \<and> imgs_profile (snd (update db i ui)) = imgs_profile db
    \<and> (\<forall>j. j \<noteq> i \<longrightarrow>
          find_one (by_id j) (users (snd (update db i ui))) = find_one (by_id j) (users db))"
proof -
  have keep: "\<And>v. u_id (set_profile ui v) = u_id v" by (simp add: set_profile_def)
  have found: "find_one (by_id i) (users (snd (update db i ui))) = Some (set_profile ui u)"
    using assms by (simp add: update_def Let_def find_user_update [OF keep])
  have ret: "fst (update db i ui) = Some (set_profile ui u)"
    using assms by (simp add: update_def Let_def find_user_update [OF keep])
  have others: "\<forall>j. j \<noteq> i \<longrightarrow>
      find_one (by_id j) (users (snd (update db i ui))) = find_one (by_id j) (users db)"
    by (simp add: update_def Let_def find_user_update [OF keep])
  have frame: "posts (snd (update db i ui)) = posts db
      \<and> imgs_profile (snd (update db i ui)) = imgs_profile db"
    by (simp add: update_def Let_def)
  from found ret others frame show ?thesis
    by (simp add: set_profile_def)
qed

theorem update_sets_six_fields_witness:
  "find_one (by_id ''u1'') (users db0) = Some alice \<and> ''u2'' \<noteq> ''u1''
   \<and> fst (update db0 ''u1'' form0)
       = Some (alice\<lparr>name := Some ''Al'', bio := None, age := Some ''30''\<rparr>)
   \<and> (\<exists>u'. fst (update db0 ''u1'' form0) = Some u' \<and> username u' = ''alice'')
   \<and> find_one (by_id ''u2'') (users (snd (update db0 ''u1'' form0))) = Some bob"
proof -
  have h: "find_one (by_id ''u1'') (users db0) = Some alice"
    by (simp add: db0_def by_id_def alice_def)
  have h2: "''u2'' \<noteq> ''u1''" by simp
  have b: "find_one (by_id ''u2'') (users db0) = Some bob"
    by (simp add: db0_def by_id_def alice_def bob_def blank0_def)
  have e: "fst (update db0 ''u1'' form0)
       = Some (alice\<lparr>name := Some ''Al'', bio := None, age := Some ''30''\<rparr>)"
    by (simp add: update_def set_profile_def py_str_def str_int_def form0_def by_id_def
          store_defs)
  from update_sets_six_fields [OF h, of form0] h2 b
  have "(\<exists>u'. fst (update db0 ''u1'' form0) = Some u' \<and> username u' = ''alice'')
      \<and> find_one (by_id ''u2'') (users (snd (update db0 ''u1'' form0))) = Some bob"
    by (auto simp: alice_def)
  with h h2 e show ?thesis by blast
qed

text \<open>
  The claim as written fails for a field the input leaves out: the biography stored for
  the user is overwritten with \<open>None\<close>.
\<close>

theorem update_overwrites_counterexample:
  "in_bio form0 = None
   \<and> map_option bio (find_one (by_id ''u1'') (users db0)) = Some (Some ''hello'')
   \<and> map_option bio (fst (update db0 ''u1'' form0)) = Some None
   \<and> map_option age (fst (update db0 ''u1'' (form0\<lparr>in_age := None\<rparr>))) = Some (Some ''None'')"
  by (simp add: update_def set_profile_def py_str_def str_int_def form0_def by_id_def
        store_defs)

section \<open>Signing up\<close>

lemma check_username_iff: "check_username db n \<longleftrightarrow> n \<in> username ` set (users db)"
proof (cases "n \<in> username ` set (users db)")
  case True
  with find_username_present [of n "users db"] show ?thesis
    by (simp add: check_username_def)
next
  case False
  with find_username_absent [of n "users db"] show ?thesis
    by (simp add: check_username_def)
qed

lemma find_user_appended:
  "i \<notin> u_id ` set us \<Longrightarrow> u_id u = i \<Longrightarrow> find_one (by_id i) (us @ [u]) = Some u"
  by (induction us) (auto simp: by_id_def)

lemma create_fresh:
  assumes "u_id blank \<notin> u_id ` set (users db)"
  shows "create settings blank now1 now2 db d =
      Inr (Some (blank\<lparr>username := d_username d, hashed_password := d_hashed_password d,
                   created_at := now1, updated_at := now2,
                   profile_image := DEFAULT_PROFILE_IMAGE settings\<rparr>),
           db\<lparr>users := users db @
             [blank\<lparr>username := d_username d, hashed_password := d_hashed_password d,
                created_at := now1, updated_at := now2,
                profile_image := DEFAULT_PROFILE_IMAGE settings\<rparr>]\<rparr>)"
  using assms by (simp add: create_def insert_one_def Let_def find_user_appended)

lemma create_duplicate:
  assumes "u_id blank \<in> u_id ` set (users db)"
  shows "create settings blank now1 now2 db d = Inl DuplicateKeyError"
  using assms by (simp add: create_def insert_one_def Let_def)

text \<open>
  C3, as the code has it. When the username is taken, \<open>signup\<close> ends with an
  \<open>HTTPException\<close> of status 401 and detail \<open>Account already exists\<close>, and the store
  is as before: no user is created. When the username is free, with the password hashed
  and the new document's id free, it appends one user with that username and hash, the
  default profile image, the first clock reading as \<open>created_at\<close> and the second as
  \<open>updated_at\<close>, and hands that user back.
\<close>

theorem signup_taken_or_created:
  "(n \<in> username ` set (users db) \<longrightarrow>
      signalled (fst (signup settings auth_handler blank now1 now2 db n pw))
        = Some (HTTPException 401 ''Account already exists'')
      \<and> snd (signup settings auth_handler blank now1 now2 db n pw) = db)
   \<and> (n \<notin> username ` set (users db) \<and> encode_password auth_handler pw = Inr h
        \<and> u_id blank \<notin> u_id ` set (users db) \<longrightarrow>
      (\<exists>u. signup settings auth_handler blank now1 now2 db n pw
              = (Created (Some u), db\<lparr>users := users db @ [u]\<rparr>)
         \<and> username u = n \<and> hashed_password u = h
         \<and> profile_image u = DEFAULT_PROFILE_IMAGE settings
         \<and> created_at u = now1 \<and> updated_at u = now2
         \<and> u = blank\<lparr>username := n, hashed_password := h, created_at := now1,
                    updated_at := now2, profile_image := DEFAULT_PROFILE_IMAGE settings\<rparr>))"
proof -
  have taken: "signup settings auth_handler blank now1 now2 db n pw
        = (Returned (HTTPException 401 ''Account already exists''), db)"
    if "n \<in> username ` set (users db)"
    using that by (simp add: signup_def check_username_iff)
  have made: "signup settings auth_handler blank now1 now2 db n pw
      = (Created (Some (blank\<lparr>username := n, hashed_password := h, created_at := now1,
                    updated_at := now2, profile_image := DEFAULT_PROFILE_IMAGE settings\<rparr>)),
         db\<lparr>users := users db @ [blank\<lparr>username := n, hashed_password := h,
                    created_at := now1, updated_at := now2,
                    profile_image := DEFAULT_PROFILE_IMAGE settings\<rparr>]\<rparr>)"
    if "n \<notin> username ` set (users db)" "encode_password auth_handler pw = Inr h"
       "u_id blank \<notin> u_id ` set (users db)"
    using that by (simp add: signup_def check_username_iff create_fresh)
  from taken made show ?thesis by simp
qed

theorem signup_taken_or_created_witness:
  "''alice'' \<in> username ` set (users db0)
   \<and> signalled (fst (signup settings0 auth0 blank0 5 6 db0 ''alice'' ''pw''))
       = Some (HTTPException 401 ''Account already exists'')
   \<and> snd (signup settings0 auth0 blank0 5 6 db0 ''alice'' ''pw'') = db0
   \<and> ''carol'' \<notin> username ` set (users db0) \<and> encode_password auth0 ''pw'' = Inr ''#pw''
   \<and> u_id blank0 \<notin> u_id ` set (users db0)
   \<and> fst (signup settings0 auth0 blank0 5 6 db0 ''carol'' ''pw'')
       = Created (Some (blank0\<lparr>username := ''carol'', hashed_password := ''#pw'',
           created_at := 5, updated_at := 6, profile_image := ''default''\<rparr>))"
proof -
  have h1: "''alice'' \<in> username ` set (users db0)" by (simp add: store_defs)
  have h2: "''carol'' \<notin> username ` set (users db0)" by (simp add: store_defs)
  have h3: "encode_password auth0 ''pw'' = Inr ''#pw''" by (simp add: auth0_def)
  have h4: "u_id blank0 \<notin> u_id ` set (users db0)" by (simp add: store_defs)
  have d: "DEFAULT_PROFILE_IMAGE settings0 = ''default''" by (simp add: settings0_def)
  from signup_taken_or_created [where n = "''alice''" and db = db0 and settings = settings0
      and auth_handler = auth0 and blank = blank0 and ?now1.0 = 5 and ?now2.0 = 6
      and pw = "''pw''"] h1
  have r1: "signalled (fst (signup settings0 auth0 blank0 5 6 db0 ''alice'' ''pw''))
       = Some (HTTPException 401 ''Account already exists'')
     \<and> snd (signup settings0 auth0 blank0 5 6 db0 ''alice'' ''pw'') = db0"
    by blast
  from signup_taken_or_created [where n = "''carol''" and db = db0 and settings = settings0
      and auth_handler = auth0 and blank = blank0 and ?now1.0 = 5 and ?now2.0 = 6
      and pw = "''pw''" and h = "''#pw''"] h2 h3 h4 d
  have r2: "fst (signup settings0 auth0 blank0 5 6 db0 ''carol'' ''pw'')
       = Created (Some (blank0\<lparr>username := ''carol'', hashed_password := ''#pw'',
           created_at := 5, updated_at := 6, profile_image := ''default''\<rparr>))"
    by auto
  from h1 h2 h3 h4 r1 r2 show ?thesis by blast
qed

text \<open>
  The claim as written fails for a taken username: the exception \<open>signup\<close> ends with has
  status 401, not the 409 of a conflict.
\<close>

theorem signup_conflict_counterexample:
  "''alice'' \<in> username ` set (users db0)
   \<and> signup settings0 auth0 blank0 5 6 db0 ''alice'' ''pw''
       = (Returned (HTTPException 401 ''Account already exists''), db0)
   \<and> status_code (HTTPException 401 ''Account already exists'') \<noteq> Some HTTP_409_CONFLICT"
  by (simp add: signup_def check_username_def by_username_def HTTP_409_CONFLICT_def store_defs)

section \<open>Replacing the profile image\<close>

lemma gridfs_delete_gone: "i \<notin> fst ` set (gridfs_delete i fs)"
  by (auto simp: gridfs_delete_def)

lemma set_profile_image_found:
  "find_one (by_id i) (users db) = Some u \<Longrightarrow>
     find_one (by_id i) (users (set_profile_image db i f)) = Some (u\<lparr>profile_image := f\<rparr>)"
  by (simp add: set_profile_image_def find_user_update)

lemma set_profile_image_frame:
  "imgs_profile (set_profile_image db i f) = imgs_profile db
   \<and> posts (set_profile_image db i f) = posts db"
  by (simp add: set_profile_image_def)

text \<open>
  A profile image is the default one or a reference that \<open>get_file_id\<close> returned. Such a
  reference is 24 hexadecimal digits, and \<open>ObjectId\<close> reads the id back from it.
\<close>

lemma hexval_not_space: "hexval c \<noteq> None \<Longrightarrow> \<not> isspace c"
  by (auto simp: hexval_def isspace_def Let_def split: if_splits)

lemma fromhex_digits:
  "even (length s) \<Longrightarrow> list_all (\<lambda>c. hexval c \<noteq> None) s \<Longrightarrow> fromhex s \<noteq> None"
proof (induction s rule: fromhex.induct)
  case 1
  then show ?case by simp
next
  case (2 c)
  then show ?case by simp
next
  case (3 c d cs)
  from "3.prems" obtain h l where hl: "hexval c = Some h" "hexval d = Some l"
    by auto
  from hl have ns: "\<not> isspace c" using hexval_not_space [of c] by simp
  from "3.prems" have "even (length cs)" "list_all (\<lambda>c. hexval c \<noteq> None) cs"
    by simp_all
  with "3.IH"(2) [OF ns _ hl(1) hl(2)] have "fromhex cs \<noteq> None" by simp
  with ns hl show ?case by auto
qed

lemma is_reference_ObjectId: "is_reference s \<Longrightarrow> \<exists>b. ObjectId s = Inr b"
proof -
  assume r: "is_reference s"
  then have "even (length s)" by (simp add: is_reference_def)
  with r have "fromhex s \<noteq> None"
    by (simp add: is_reference_def fromhex_digits)
  with r show ?thesis by (auto simp: ObjectId_def is_reference_def)
qed

lemma hexval_digits_all:
  "list_all (\<lambda>n. hexval (''0123456789abcdef'' ! n) = Some n) [0..<16]"
  by (simp add: upt_rec hexval_def)

lemma hexval_digit:
  "n < 16 \<Longrightarrow> hexval (''0123456789abcdef'' ! n) = Some n"
  using hexval_digits_all by (simp add: list_all_iff)

lemma length_hexlify: "length (hexlify bs) = 2 * length bs"
  by (induction bs) (simp_all add: hexlify_def)

lemma hexlify_digits:
  "list_all (\<lambda>b. b < 256) bs \<Longrightarrow> list_all (\<lambda>c. hexval c \<noteq> None) (hexlify bs)"
proof (induction bs)
  case Nil
  then show ?case by (simp add: hexlify_def)
next
  case (Cons b bs)
  then have "b div 16 < 16" "b mod 16 < 16" by auto
  with Cons show ?case by (simp add: hexlify_def hexval_digit)
qed

lemma fromhex_hexlify:
  "list_all (\<lambda>b. b < 256) bs \<Longrightarrow> fromhex (hexlify bs) = Some bs"
proof (induction bs)
  case Nil
  then show ?case by (simp add: hexlify_def)
next
  case (Cons b bs)
  then have lt: "b div 16 < 16" "b mod 16 < 16" by auto
  then have ns: "\<not> isspace (''0123456789abcdef'' ! (b div 16))"
    using hexval_not_space hexval_digit by fastforce
  have "hexlify (b # bs) = (''0123456789abcdef'' ! (b div 16))
      # (''0123456789abcdef'' ! (b mod 16)) # hexlify bs"
    by (simp add: hexlify_def)
  with Cons ns lt show ?case by (simp add: hexval_digit)
qed

lemma get_file_id_reference:
  assumes "length new_id = 12" and "list_all (\<lambda>b. b < 256) new_id"
  shows "is_reference (fst (get_file_id db new_id img))
    \<and> ObjectId (fst (get_file_id db new_id img)) = Inr new_id"
proof -
  have r: "fst (get_file_id db new_id img) = hexlify new_id"
    by (simp add: get_file_id_def)
  from assms(1) have l: "length (hexlify new_id) = 24"
    by (simp add: length_hexlify)
  from l hexlify_digits [OF assms(2)] have "is_reference (hexlify new_id)"
    unfolding is_reference_def by blast
  moreover from l fromhex_hexlify [OF assms(2)] have "ObjectId (hexlify new_id) = Inr new_id"
    by (simp add: ObjectId_def)
  ultimately show ?thesis by (simp add: r)
qed

text \<open>
  C5. For a stored user whose profile image is the default one or a reference of the
  image store: when it is not the default, the file under the id of the old reference is
  deleted first and the new reference is recorded in the store so obtained, in which no
  file has that id; when it is the default, no stored image is deleted. In both cases the
  record stored and returned afterwards carries the new reference.
\<close>

theorem update_profile_image_replaces:
  assumes "find_one (by_id i) (users db) = Some u"
    and "profile_image u = DEFAULT_PROFILE_IMAGE settings \<or> is_reference (profile_image u)"
  shows "(\<exists>r db'. update_profile_image settings db i f = Inr (Some r, db')
        \<and> find_one (by_id i) (users db') = Some r \<and> profile_image r = f
        \<and> r = u\<lparr>profile_image := f\<rparr>)
    \<and> (profile_image u = DEFAULT_PROFILE_IMAGE settings \<longrightarrow>
       update_profile_image settings db i f
         = Inr (Some (u\<lparr>profile_image := f\<rparr>), set_profile_image db i f)
       \<and> imgs_profile (set_profile_image db i f) = imgs_profile db)
    \<and> (profile_image u \<noteq> DEFAULT_PROFILE_IMAGE settings \<longrightarrow>
       (\<exists>old. ObjectId (profile_image u) = Inr old
        \<and> update_profile_image settings db i f
            = Inr (Some (u\<lparr>profile_image := f\<rparr>),
                   set_profile_image (db\<lparr>imgs_profile := gridfs_delete old (imgs_profile db)\<rparr>) i f)
        \<and> imgs_profile (set_profile_image
              (db\<lparr>imgs_profile := gridfs_delete old (imgs_profile db)\<rparr>) i f)
            = filter (\<lambda>x. fst x \<noteq> old) (imgs_profile db)
        \<and> old \<notin> fst ` set (imgs_profile (set_profile_image
              (db\<lparr>imgs_profile := gridfs_delete old (imgs_profile db)\<rparr>) i f))))"
proof (cases "profile_image u = DEFAULT_PROFILE_IMAGE settings")
  case True
  with assms(1) set_profile_image_found [OF assms(1), of f]
  have "update_profile_image settings db i f
         = Inr (Some (u\<lparr>profile_image := f\<rparr>), set_profile_image db i f)"
    by (simp add: update_profile_image_def Let_def)
  with True set_profile_image_found [OF assms(1), of f] set_profile_image_frame [of db i f]
  show ?thesis by simp
next
  case False
  with assms(2) have "is_reference (profile_image u)" by simp
  then obtain old where old: "ObjectId (profile_image u) = Inr old"
    using is_reference_ObjectId by blast
  define db1 where "db1 = db\<lparr>imgs_profile := gridfs_delete old (imgs_profile db)\<rparr>"
  have f1: "find_one (by_id i) (users db1) = Some u"
    using assms(1) by (simp add: db1_def)
  have swap: "update_profile_image settings db i f
         = Inr (Some (u\<lparr>profile_image := f\<rparr>), set_profile_image db1 i f)"
    using False old assms(1) set_profile_image_found [OF f1, of f]
    by (simp add: update_profile_image_def Let_def db1_def)
  have imgs: "imgs_profile (set_profile_image db1 i f) = filter (\<lambda>x. fst x \<noteq> old) (imgs_profile db)"
    by (simp add: set_profile_image_frame db1_def gridfs_delete_def)
  have gone: "old \<notin> fst ` set (imgs_profile (set_profile_image db1 i f))"
    using gridfs_delete_gone [of old "imgs_profile db"]
    by (simp add: set_profile_image_frame db1_def)
  have ret: "\<exists>r db'. update_profile_image settings db i f = Inr (Some r, db')
        \<and> find_one (by_id i) (users db') = Some r \<and> profile_image r = f
        \<and> r = u\<lparr>profile_image := f\<rparr>"
    using swap set_profile_image_found [OF f1, of f] by simp
  have "\<exists>old. ObjectId (profile_image u) = Inr old
        \<and> update_profile_image settings db i f
            = Inr (Some (u\<lparr>profile_image := f\<rparr>),
                   set_profile_image (db\<lparr>imgs_profile := gridfs_delete old (imgs_profile db)\<rparr>) i f)
        \<and> imgs_profile (set_profile_image
              (db\<lparr>imgs_profile := gridfs_delete old (imgs_profile db)\<rparr>) i f)
            = filter (\<lambda>x. fst x \<noteq> old) (imgs_profile db)
        \<and> old \<notin> fst ` set (imgs_profile (set_profile_image
              (db\<lparr>imgs_profile := gridfs_delete old (imgs_profile db)\<rparr>) i f))"
    using old swap imgs gone unfolding db1_def by blast
  with False ret show ?thesis by blast
qed

lemma ObjectId_example:
  "ObjectId ''0123456789abcdef01234567'' = Inr [1, 35, 69, 103, 137, 171, 205, 239, 1, 35, 69, 103]"
  by (simp add: ObjectId_def isspace_def hexval_def)

theorem update_profile_image_replaces_witness:
  "find_one (by_id ''u1'') (users db0) = Some alice
   \<and> profile_image alice = DEFAULT_PROFILE_IMAGE settings0
   \<and> map_option (imgs_profile \<circ> snd)
        (projr_opt (update_profile_image settings0 db0 ''u1'' ''0123456789abcdef01234567''))
       = Some []
   \<and> find_one (by_id ''u1'') (users db_image)
       = Some (alice\<lparr>profile_image := ''0123456789abcdef01234567''\<rparr>)
   \<and> is_reference ''0123456789abcdef01234567''
   \<and> ''0123456789abcdef01234567'' \<noteq> DEFAULT_PROFILE_IMAGE settings0
   \<and> map_option (imgs_profile \<circ> snd)
        (projr_opt (update_profile_image settings0 db_image ''u1'' ''00000000000000000000000a''))
       = Some [([0, 0, 0, 0, 0, 0, 0, 0, 0, 0, 0, 0], [8])]
   \<and> map_option (map_option profile_image \<circ> fst)
        (projr_opt (update_profile_image settings0 db_image ''u1'' ''00000000000000000000000a''))
       = Some (Some ''00000000000000000000000a'')"
proof -
  have a1: "find_one (by_id ''u1'') (users db0) = Some alice"
    by (simp add: db0_def by_id_def alice_def)
  have a2: "profile_image alice = DEFAULT_PROFILE_IMAGE settings0"
    by (simp add: alice_def settings0_def)
  have a3: "imgs_profile db0 = []" by (simp add: db0_def)
  from update_profile_image_replaces [OF a1, where settings = settings0
      and f = "''0123456789abcdef01234567''"] a2 a3
  have r1: "map_option (imgs_profile \<circ> snd)
        (projr_opt (update_profile_image settings0 db0 ''u1'' ''0123456789abcdef01234567''))
       = Some []"
    by (simp add: projr_opt_def)
  have b1: "find_one (by_id ''u1'') (users db_image)
       = Some (alice\<lparr>profile_image := ''0123456789abcdef01234567''\<rparr>)"
    by (simp add: db_image_def by_id_def alice_def)
  have b2: "is_reference ''0123456789abcdef01234567''"
    by (simp add: is_reference_def hexval_def)
  have b3: "''0123456789abcdef01234567'' \<noteq> DEFAULT_PROFILE_IMAGE settings0"
    by (simp add: settings0_def)
  have b4: "imgs_profile db_image
      = [([1, 35, 69, 103, 137, 171, 205, 239, 1, 35, 69, 103], [7, 7]),
         ([0, 0, 0, 0, 0, 0, 0, 0, 0, 0, 0, 0], [8])]"
    by (simp add: db_image_def)
  from update_profile_image_replaces [OF b1, where settings = settings0
      and f = "''00000000000000000000000a''"] b2 b3 b4 ObjectId_example
  have r2: "map_option (imgs_profile \<circ> snd)
        (projr_opt (update_profile_image settings0 db_image ''u1'' ''00000000000000000000000a''))
       = Some [([0, 0, 0, 0, 0, 0, 0, 0, 0, 0, 0, 0], [8])]
     \<and> map_option (map_option profile_image \<circ> fst)
        (projr_opt (update_profile_image settings0 db_image ''u1'' ''00000000000000000000000a''))
       = Some (Some ''00000000000000000000000a'')"
    by (auto simp: projr_opt_def)
  from a1 a2 r1 b1 b2 b3 r2 show ?thesis by blast
qed

end
